theory Spec2Isabelle
  imports Main "HOL-Library.Word" "HOL-Library.Multiset"
begin

section \<open>The motion api bot: command handlers, registration and fault classification\<close>

text \<open>
  The class \<open>Api\<close> of \<open>bot/api.py\<close> relays chat commands to a backend over HTTP.
  Its methods are embedded as functions that take the \<open>Api\<close> object and the outside
  world and return the outcome (an exception or a normal return), the object and the world
  after the call. The collaborators the class calls but does not define (the HTTP client,
  the chat transport) are a parameter: a record of their answers.
\<close>

subsection \<open>Values and exceptions\<close>

type_synonym bytes = "8 word list"

text \<open>The Python values that reach the code as settings entries and as message texts.\<close>

datatype pyval = PyStr string | PyBytes bytes | PyInt int | PyNone

text \<open>
  Exception classes. The first eight are those of \<open>telegram.error\<close>; \<open>mro\<close> lists a
  class with its base classes up to (not including) \<open>Exception\<close>, as the library declares
  them: \<open>BadRequest\<close> and \<open>TimedOut\<close> derive from \<open>NetworkError\<close>, every other class of
  the library directly from \<open>TelegramError\<close>. The last four are exceptions from outside
  the transport: Python's own and the HTTP client's.
\<close>

datatype exc_class =
    TelegramError | Unauthorized | InvalidToken | NetworkError
  | BadRequest | TimedOut | ChatMigrated | RetryAfter
  | KeyError | TypeError | AttributeError | RequestException

fun mro :: "exc_class \<Rightarrow> exc_class list" where
  "mro TelegramError = [TelegramError]"
| "mro Unauthorized = [Unauthorized, TelegramError]"
| "mro InvalidToken = [InvalidToken, TelegramError]"
| "mro NetworkError = [NetworkError, TelegramError]"
| "mro BadRequest = [BadRequest, NetworkError, TelegramError]"
| "mro TimedOut = [TimedOut, NetworkError, TelegramError]"
| "mro ChatMigrated = [ChatMigrated, TelegramError]"
| "mro RetryAfter = [RetryAfter, TelegramError]"
| "mro KeyError = [KeyError]"
| "mro TypeError = [TypeError]"
| "mro AttributeError = [AttributeError]"
| "mro RequestException = [RequestException]"

datatype exn = Exn (class_of: exc_class)

text \<open>\<open>except C\<close> catches an exception whose class is \<open>C\<close> or derives from it.\<close>

definition isinstance :: "exn \<Rightarrow> exc_class \<Rightarrow> bool" where
  "isinstance e c = (c \<in> set (mro (class_of e)))"

subsection \<open>The Api object, inbound events and the world\<close>

text \<open>
  A message has the chat it came from and the command token the transport found at its
  start (\<open>None\<close> when it is not a command). An update carries it as \<open>message\<close> when it
  was sent in a chat and as \<open>channel_post\<close> when it was posted in a channel; the other
  attribute is then \<open>None\<close>.
\<close>

record message =
  chat_id :: int
  command :: "string option"

record update =
  message :: "message option"
  channel_post :: "message option"

datatype callback = Help | Start | Stop | Info | Version | Test | Unknown

datatype message_filter = FiltersCommand

datatype listener =
    CommandHandler string callback
  | MessageHandler message_filter callback

datatype error_listener = ErrorCallback

text \<open>
  The transport's dispatcher keeps the listeners of the default group in the order they
  were added, and the error listeners apart.
\<close>

record dispatcher =
  handlers :: "listener list"
  error_handlers :: "error_listener list"

text \<open>
  The attributes of the \<open>Api\<close> object that its methods read or assign: the settings
  given to the constructor and the updater \<open>run\<close> stores (\<open>None\<close> before).
\<close>

record api =
  settings :: "string \<rightharpoonup> pyval"
  updater :: "dispatcher option"

record response =
  status_code :: int
  content :: bytes

text \<open>
  What the code does to the outside: the lines it logs and prints, the URLs it requested,
  the calls of \<open>bot.send_message\<close> it made (chat and text) and, of these, the replies the
  transport accepted.
\<close>

record world =
  logged :: "string list"
  stdout :: "string list"
  requests :: "string list"
  send_calls :: "(int \<times> pyval) list"
  sent :: "(int \<times> pyval) list"

text \<open>
  The collaborators' answers: \<open>requests.get\<close> returns a response or raises; the chat
  platform takes a message or the call raises.
\<close>

record env =
  http_get :: "string \<Rightarrow> exn + response"
  telegram_send :: "int \<Rightarrow> pyval \<Rightarrow> exn option"

type_synonym 'a outcome = "(exn + 'a) \<times> api \<times> world"

definition result_of :: "'a outcome \<Rightarrow> exn + 'a" where
  "result_of x = fst x"

definition api_of :: "'a outcome \<Rightarrow> api" where
  "api_of x = fst (snd x)"

definition world_of :: "'a outcome \<Rightarrow> world" where
  "world_of x = snd (snd x)"

subsection \<open>Primitive effects\<close>

definition logger_info :: "string \<Rightarrow> world \<Rightarrow> world" where
  "logger_info line w = w\<lparr>logged := logged w @ [line]\<rparr>"

definition py_print :: "string \<Rightarrow> world \<Rightarrow> world" where
  "py_print line w = w\<lparr>stdout := stdout w @ [line]\<rparr>"

text \<open>\<open>d[k]\<close> on a dict raises \<open>KeyError\<close> for a missing key.\<close>

definition getitem :: "(string \<rightharpoonup> pyval) \<Rightarrow> string \<Rightarrow> exn + pyval" where
  "getitem d k = (case d k of None \<Rightarrow> Inl (Exn KeyError) | Some v \<Rightarrow> Inr v)"

text \<open>\<open>s + v\<close> for a \<open>str\<close> \<open>s\<close> raises \<open>TypeError\<close> unless \<open>v\<close> is a \<open>str\<close> too.\<close>

fun str_add :: "string \<Rightarrow> pyval \<Rightarrow> exn + string" where
  "str_add s (PyStr t) = Inr (s @ t)"
| "str_add s v = Inl (Exn TypeError)"

text \<open>\<open>update.message.chat_id\<close> raises \<open>AttributeError\<close> when \<open>update.message\<close> is \<open>None\<close>.\<close>

definition message_chat_id :: "update \<Rightarrow> exn + int" where
  "message_chat_id u =
     (case message u of None \<Rightarrow> Inl (Exn AttributeError) | Some m \<Rightarrow> Inr (chat_id m))"

text \<open>
  \<open>bot.send_message\<close>. The library encodes the request as JSON before it sends it; on
  Python 3, which the class is written for, a \<open>bytes\<close> text cannot be encoded and the call
  raises \<open>TypeError\<close>. A reply counts as sent when the call returns.
\<close>

definition send_message :: "env \<Rightarrow> int \<Rightarrow> pyval \<Rightarrow> api \<Rightarrow> world \<Rightarrow> unit outcome" where
  "send_message ev chat text a w =
     (let w1 = w\<lparr>send_calls := send_calls w @ [(chat, text)]\<rparr>
      in case text of
           PyBytes b \<Rightarrow> (Inl (Exn TypeError), a, w1)
         | _ \<Rightarrow>
             (case telegram_send ev chat text of
                Some e \<Rightarrow> (Inl e, a, w1)
              | None \<Rightarrow> (Inr (), a, w1\<lparr>sent := sent w @ [(chat, text)]\<rparr>)))"

subsection \<open>The backend client\<close>

definition get_request_to_server :: "env \<Rightarrow> string \<Rightarrow> api \<Rightarrow> world \<Rightarrow> response outcome" where
  "get_request_to_server ev cmd a w =
     (case getitem (settings a) ''server_address'' of
        Inl e \<Rightarrow> (Inl e, a, w)
      | Inr v \<Rightarrow>
          (case str_add ''http://'' v of
             Inl e \<Rightarrow> (Inl e, a, w)
           | Inr s \<Rightarrow>
               (let address = s @ ''/v1/'' @ cmd
                in (http_get ev address, a, w\<lparr>requests := requests w @ [address]\<rparr>))))"

subsection \<open>The command handlers\<close>

definition help_handler :: "env \<Rightarrow> update \<Rightarrow> api \<Rightarrow> world \<Rightarrow> unit outcome" where
  "help_handler ev u a w =
     (case get_request_to_server ev ''help'' a (logger_info ''Received help command'' w) of
        (Inl e, a1, w1) \<Rightarrow> (Inl e, a1, w1)
      | (Inr r, a1, w1) \<Rightarrow>
          (case message_chat_id u of
             Inl e \<Rightarrow> (Inl e, a1, w1)
           | Inr chat \<Rightarrow> send_message ev chat (PyBytes (content r)) a1 w1))"

definition start :: "env \<Rightarrow> update \<Rightarrow> api \<Rightarrow> world \<Rightarrow> unit outcome" where
  "start ev u a w =
     (case get_request_to_server ev ''start'' a (logger_info ''Received start command'' w) of
        (Inl e, a1, w1) \<Rightarrow> (Inl e, a1, w1)
      | (Inr r, a1, w1) \<Rightarrow>
          (case message_chat_id u of
             Inl e \<Rightarrow> (Inl e, a1, w1)
           | Inr chat \<Rightarrow> send_message ev chat (PyBytes (content r)) a1 w1))"

definition stop :: "env \<Rightarrow> update \<Rightarrow> api \<Rightarrow> world \<Rightarrow> unit outcome" where
  "stop ev u a w =
     (case get_request_to_server ev ''stop'' a (logger_info ''Received stop command'' w) of
        (Inl e, a1, w1) \<Rightarrow> (Inl e, a1, w1)
      | (Inr r, a1, w1) \<Rightarrow>
          (case message_chat_id u of
             Inl e \<Rightarrow> (Inl e, a1, w1)
           | Inr chat \<Rightarrow> send_message ev chat (PyBytes (content r)) a1 w1))"

definition info :: "env \<Rightarrow> update \<Rightarrow> api \<Rightarrow> world \<Rightarrow> unit outcome" where
  "info ev u a w =
     (case get_request_to_server ev ''info'' a (logger_info ''Received info command'' w) of
        (Inl e, a1, w1) \<Rightarrow> (Inl e, a1, w1)
      | (Inr r, a1, w1) \<Rightarrow>
          (case message_chat_id u of
             Inl e \<Rightarrow> (Inl e, a1, w1)
           | Inr chat \<Rightarrow> send_message ev chat (PyBytes (content r)) a1 w1))"

definition version :: "env \<Rightarrow> update \<Rightarrow> api \<Rightarrow> world \<Rightarrow> unit outcome" where
  "version ev u a w =
     (let w1 = logger_info ''Received version command'' w
      in case message_chat_id u of
           Inl e \<Rightarrow> (Inl e, a, w1)
         | Inr chat \<Rightarrow>
             (case getitem (settings a) ''version'' of
                Inl e \<Rightarrow> (Inl e, a, w1)
              | Inr v \<Rightarrow> send_message ev chat v a w1))"

definition test :: "env \<Rightarrow> update \<Rightarrow> api \<Rightarrow> world \<Rightarrow> unit outcome" where
  "test ev u a w =
     (case get_request_to_server ev ''test'' a (logger_info ''Received test command'' w) of
        (Inl e, a1, w1) \<Rightarrow> (Inl e, a1, w1)
      | (Inr r, a1, w1) \<Rightarrow>
          (case message_chat_id u of
             Inl e \<Rightarrow> (Inl e, a1, w1)
           | Inr chat \<Rightarrow> send_message ev chat (PyBytes (content r)) a1 w1))"

definition unknown :: "env \<Rightarrow> update \<Rightarrow> api \<Rightarrow> world \<Rightarrow> unit outcome" where
  "unknown ev u a w =
     (let w1 = logger_info ''Received unknown command'' w
      in case message_chat_id u of
           Inl e \<Rightarrow> (Inl e, a, w1)
         | Inr chat \<Rightarrow> send_message ev chat (PyStr ''Sorry, unknown command'') a w1)"

text \<open>
  \<open>getattr(self, name)\<close> for the names the code looks up: the seven methods that take
  an update. Any other name is modelled as missing.
\<close>

definition getattr_Api :: "string \<Rightarrow> exn + callback" where
  "getattr_Api name =
     (if name = ''help'' then Inr Help
      else if name = ''start'' then Inr Start
      else if name = ''stop'' then Inr Stop
      else if name = ''info'' then Inr Info
      else if name = ''version'' then Inr Version
      else if name = ''test'' then Inr Test
      else if name = ''unknown'' then Inr Unknown
      else Inl (Exn AttributeError))"

text \<open>Calling the bound method a listener holds.\<close>

fun call :: "callback \<Rightarrow> env \<Rightarrow> update \<Rightarrow> api \<Rightarrow> world \<Rightarrow> unit outcome" where
  "call Help = help_handler"
| "call Start = start"
| "call Stop = stop"
| "call Info = info"
| "call Version = version"
| "call Test = test"
| "call Unknown = unknown"

subsection \<open>Fault classification\<close>

text \<open>
  \<open>__error_callback\<close> raises the error inside a \<open>try\<close> whose \<open>except\<close> clauses are
  tried in the order written; an error none of them catches leaves the callback.
\<close>

definition error_callback :: "env \<Rightarrow> update \<Rightarrow> exn \<Rightarrow> api \<Rightarrow> world \<Rightarrow> unit outcome" where
  "error_callback ev u error a w =
     (if isinstance error Unauthorized then
        (Inr (), a, logger_info ''Error Unauthorized found!'' w)
      else if isinstance error BadRequest then
        (Inr (), a, logger_info ''Error BadRequest found!'' w)
      else if isinstance error TimedOut then
        (Inr (), a, logger_info ''Error TimedOut found!'' w)
      else if isinstance error NetworkError then
        (Inr (), a, logger_info ''Error NetworkError found!'' w)
      else if isinstance error ChatMigrated then
        (Inr (), a, logger_info ''Error ChatMigrated found!'' w)
      else if isinstance error TelegramError then
        (Inr (), a, logger_info ''Error TelegramError found!'' w)
      else (Inl error, a, w))"

text \<open>The six classes the callback names, in the order of its clauses.\<close>

definition fault_kinds :: "exc_class list" where
  "fault_kinds = [Unauthorized, BadRequest, TimedOut, NetworkError, ChatMigrated, TelegramError]"

fun kind_name :: "exc_class \<Rightarrow> string" where
  "kind_name TelegramError = ''TelegramError''"
| "kind_name Unauthorized = ''Unauthorized''"
| "kind_name InvalidToken = ''InvalidToken''"
| "kind_name NetworkError = ''NetworkError''"
| "kind_name BadRequest = ''BadRequest''"
| "kind_name TimedOut = ''TimedOut''"
| "kind_name ChatMigrated = ''ChatMigrated''"
| "kind_name RetryAfter = ''RetryAfter''"
| "kind_name KeyError = ''KeyError''"
| "kind_name TypeError = ''TypeError''"
| "kind_name AttributeError = ''AttributeError''"
| "kind_name RequestException = ''RequestException''"

text \<open>The clause that catches an error: the first class, in clause order, it is an instance of.\<close>

definition caught_by :: "exn \<Rightarrow> exc_class option" where
  "caught_by e = find (isinstance e) fault_kinds"

subsection \<open>Registration and dispatch\<close>

definition api_commands :: "string list" where
  "api_commands = [''help'', ''start'', ''stop'', ''info'', ''version'', ''test'']"

definition new_dispatcher :: dispatcher where
  "new_dispatcher = \<lparr>handlers = [], error_handlers = []\<rparr>"

definition add_handler :: "listener \<Rightarrow> dispatcher \<Rightarrow> dispatcher" where
  "add_handler l d = d\<lparr>handlers := handlers d @ [l]\<rparr>"

definition add_error_handler :: "error_listener \<Rightarrow> dispatcher \<Rightarrow> dispatcher" where
  "add_error_handler l d = d\<lparr>error_handlers := error_handlers d @ [l]\<rparr>"

text \<open>The loop of \<open>__create_api_commands\<close> over \<open>api_commands\<close>.\<close>

fun add_command_handlers ::
  "string list \<Rightarrow> dispatcher \<Rightarrow> world \<Rightarrow> (exn + unit) \<times> dispatcher \<times> world" where
  "add_command_handlers [] d w = (Inr (), d, w)"
| "add_command_handlers (name # rest) d w =
     (let w1 = py_print (''Creating command: '' @ name) w
      in case getattr_Api name of
           Inl e \<Rightarrow> (Inl e, d, w1)
         | Inr cb \<Rightarrow> add_command_handlers rest (add_handler (CommandHandler name cb) d) w1)"

definition create_api_commands ::
  "dispatcher \<Rightarrow> world \<Rightarrow> (exn + unit) \<times> dispatcher \<times> world" where
  "create_api_commands d w =
     (case add_command_handlers api_commands d w of
        (Inl e, d1, w1) \<Rightarrow> (Inl e, d1, w1)
      | (Inr _, d1, w1) \<Rightarrow>
          (case getattr_Api ''unknown'' of
             Inl e \<Rightarrow> (Inl e, d1, w1)
           | Inr cb \<Rightarrow>
               (Inr (),
                add_error_handler ErrorCallback (add_handler (MessageHandler FiltersCommand cb) d1),
                w1)))"

text \<open>
  The transport's side of dispatch, which the chat library implements and documents
  (\<open>CommandHandler.check_update\<close>, \<open>MessageHandler.check_update\<close>,
  \<open>Filters.command\<close>, \<open>Dispatcher.process_update\<close>). A command listener takes an
  update whose \<open>message\<close> has its own name as command token; it takes no channel post. A
  message listener made with the default arguments takes messages and channel posts alike
  and applies its filter to \<open>update.effective_message\<close>; \<open>Filters.command\<close> holds of
  every message with a command token. Within the group the first listener, in the order
  of registration, that takes the update handles it; no other listener of the group sees
  it. What the dispatcher does with an exception a handler raises is not modelled:
  \<open>process_update\<close> returns it.
\<close>

definition effective_message :: "update \<Rightarrow> message option" where
  "effective_message u = (case message u of None \<Rightarrow> channel_post u | Some m \<Rightarrow> Some m)"

definition command_token :: "update \<Rightarrow> string option" where
  "command_token u = (case effective_message u of None \<Rightarrow> None | Some m \<Rightarrow> command m)"

fun check_update :: "listener \<Rightarrow> update \<Rightarrow> bool" where
  "check_update (CommandHandler name cb) u =
     (case message u of None \<Rightarrow> False | Some m \<Rightarrow> command m = Some name)"
| "check_update (MessageHandler FiltersCommand cb) u = (command_token u \<noteq> None)"

fun listener_callback :: "listener \<Rightarrow> callback" where
  "listener_callback (CommandHandler name cb) = cb"
| "listener_callback (MessageHandler f cb) = cb"

definition dispatch :: "dispatcher \<Rightarrow> update \<Rightarrow> callback option" where
  "dispatch d u = map_option listener_callback (find (\<lambda>l. check_update l u) (handlers d))"

definition process_update :: "env \<Rightarrow> dispatcher \<Rightarrow> update \<Rightarrow> api \<Rightarrow> world \<Rightarrow> unit outcome" where
  "process_update ev d u a w =
     (case dispatch d u of
        None \<Rightarrow> (Inr (), a, w)
      | Some cb \<Rightarrow> call cb ev u a w)"

text \<open>Registrations as data, to speak about the order in which they are made.\<close>

datatype registration = AddHandler listener | AddErrorHandler error_listener

fun register :: "registration \<Rightarrow> dispatcher \<Rightarrow> dispatcher" where
  "register (AddHandler l) d = add_handler l d"
| "register (AddErrorHandler l) d = add_error_handler l d"

fun register_all :: "registration list \<Rightarrow> dispatcher \<Rightarrow> dispatcher" where
  "register_all [] d = d"
| "register_all (r # rs) d = register_all rs (register r d)"

text \<open>The registrations \<open>__create_api_commands\<close> makes, in its order.\<close>

definition code_registrations :: "registration list" where
  "code_registrations =
     [AddHandler (CommandHandler ''help'' Help),
      AddHandler (CommandHandler ''start'' Start),
      AddHandler (CommandHandler ''stop'' Stop),
      AddHandler (CommandHandler ''info'' Info),
      AddHandler (CommandHandler ''version'' Version),
      AddHandler (CommandHandler ''test'' Test),
      AddHandler (MessageHandler FiltersCommand Unknown),
      AddErrorHandler ErrorCallback]"

fun is_command_registration :: "registration \<Rightarrow> bool" where
  "is_command_registration (AddHandler (CommandHandler name cb)) = True"
| "is_command_registration r = False"

fun is_fallback_registration :: "registration \<Rightarrow> bool" where
  "is_fallback_registration (AddHandler (MessageHandler f cb)) = True"
| "is_fallback_registration r = False"

text \<open>No command listener is registered after a fallback listener.\<close>

definition fallback_after_commands :: "registration list \<Rightarrow> bool" where
  "fallback_after_commands rs =
     (\<not> list_ex is_command_registration (dropWhile (\<lambda>r. \<not> is_fallback_registration r) rs))"

text \<open>The listeners a list of registrations adds, in order.\<close>

fun registered_listeners :: "registration list \<Rightarrow> listener list" where
  "registered_listeners [] = []"
| "registered_listeners (AddHandler l # rs) = l # registered_listeners rs"
| "registered_listeners (AddErrorHandler l # rs) = registered_listeners rs"

text \<open>
  Routing by exact name: a message with a listed command goes to the method of that name,
  any other command token (and any command token in a channel post) to \<open>unknown\<close>, an
  update without a command token nowhere.
\<close>

definition route :: "update \<Rightarrow> callback option" where
  "route u =
     (case command_token u of
        None \<Rightarrow> None
      | Some c \<Rightarrow>
          if message u \<noteq> None \<and> c \<in> set api_commands
          then (case getattr_Api c of Inl e \<Rightarrow> None | Inr cb \<Rightarrow> Some cb)
          else Some Unknown)"

subsection \<open>Worlds side by side\<close>

definition empty_world :: world where
  "empty_world = \<lparr>logged = [], stdout = [], requests = [], send_calls = [], sent = []\<rparr>"

text \<open>\<open>extend_world w d\<close>: the world \<open>w\<close> followed by what \<open>d\<close> records.\<close>

definition extend_world :: "world \<Rightarrow> world \<Rightarrow> world" where
  "extend_world w d =
     \<lparr>logged = logged w @ logged d, stdout = stdout w @ stdout d,
      requests = requests w @ requests d, send_calls = send_calls w @ send_calls d,
      sent = sent w @ sent d\<rparr>"

text \<open>A handler invoked on one event and then, in the state this leaves, on another.\<close>

definition twice ::
  "callback \<Rightarrow> env \<Rightarrow> update \<Rightarrow> env \<Rightarrow> update \<Rightarrow> api \<Rightarrow> world \<Rightarrow> unit outcome" where
  "twice cb ev1 u1 ev2 u2 a w =
     call cb ev2 u2 (api_of (call cb ev1 u1 a w)) (world_of (call cb ev1 u1 a w))"

subsection \<open>A sample configuration\<close>

definition sample_api :: api where
  "sample_api =
     \<lparr>settings = [''server_address'' \<mapsto> PyStr ''localhost:8080'',
                  ''version'' \<mapsto> PyStr ''1.0''],
      updater = None\<rparr>"

definition hello :: bytes where
  "hello = [72, 101, 108, 108, 111, 33]"

definition sample_env :: env where
  "sample_env =
     \<lparr>http_get = (\<lambda>url. Inr \<lparr>status_code = 200, content = hello\<rparr>),
      telegram_send = (\<lambda>chat text. None)\<rparr>"

definition failing_env :: env where
  "failing_env =
     \<lparr>http_get = (\<lambda>url. Inl (Exn RequestException)),
      telegram_send = (\<lambda>chat text. None)\<rparr>"

text \<open>A second backend answer, with an error status, and a second chat.\<close>

definition bye :: bytes where
  "bye = [98, 121, 101]"

definition second_env :: env where
  "second_env =
     \<lparr>http_get = (\<lambda>url. Inr \<lparr>status_code = 500, content = bye\<rparr>),
      telegram_send = (\<lambda>chat text. None)\<rparr>"

definition second_update :: update where
  "second_update = \<lparr>message = Some \<lparr>chat_id = 43, command = None\<rparr>, channel_post = None\<rparr>"

text \<open>Two other orders of the same registrations.\<close>

definition fallback_first :: "registration list" where
  "fallback_first =
     [AddHandler (MessageHandler FiltersCommand Unknown),
      AddHandler (CommandHandler ''help'' Help),
      AddHandler (CommandHandler ''start'' Start),
      AddHandler (CommandHandler ''stop'' Stop),
      AddHandler (CommandHandler ''info'' Info),
      AddHandler (CommandHandler ''version'' Version),
      AddHandler (CommandHandler ''test'' Test),
      AddErrorHandler ErrorCallback]"

definition fault_listener_first :: "registration list" where
  "fault_listener_first =
     [AddErrorHandler ErrorCallback,
      AddHandler (CommandHandler ''test'' Test),
      AddHandler (CommandHandler ''version'' Version),
      AddHandler (CommandHandler ''info'' Info),
      AddHandler (CommandHandler ''stop'' Stop),
      AddHandler (CommandHandler ''start'' Start),
      AddHandler (CommandHandler ''help'' Help),
      AddHandler (MessageHandler FiltersCommand Unknown)]"

text \<open>A message in chat 42, and a post in channel 7.\<close>

definition sample_update :: "string option \<Rightarrow> update" where
  "sample_update c = \<lparr>message = Some \<lparr>chat_id = 42, command = c\<rparr>, channel_post = None\<rparr>"

definition sample_channel_post :: "string option \<Rightarrow> update" where
  "sample_channel_post c =
     \<lparr>message = None, channel_post = Some \<lparr>chat_id = 7, command = c\<rparr>\<rparr>"

section \<open>Properties\<close>

subsection \<open>Shared facts about the handlers\<close>

lemma call_networked:
  assumes "cmd \<in> {''help'', ''start'', ''stop'', ''info'', ''test''}"
    and "getattr_Api cmd = Inr cb"
  shows "call cb ev u a w =
           (case get_request_to_server ev cmd a
                   (logger_info (''Received '' @ cmd @ '' command'') w) of
              (Inl e, a1, w1) \<Rightarrow> (Inl e, a1, w1)
            | (Inr r, a1, w1) \<Rightarrow>
                (case message_chat_id u of
                   Inl e \<Rightarrow> (Inl e, a1, w1)
                 | Inr chat \<Rightarrow> send_message ev chat (PyBytes (content r)) a1 w1))"
  using assms
  by (auto simp: getattr_Api_def help_handler_def start_def stop_def info_def test_def)

lemma str_add_Inr:
  "str_add s v = Inr t \<longleftrightarrow> (\<exists>x. v = PyStr x \<and> t = s @ x)"
  by (cases v) auto

lemma get_request_to_server_ok:
  assumes "settings a ''server_address'' = Some (PyStr addr)"
  shows "get_request_to_server ev cmd a w =
           (http_get ev (''http://'' @ addr @ ''/v1/'' @ cmd), a,
            w\<lparr>requests := requests w @ [''http://'' @ addr @ ''/v1/'' @ cmd]\<rparr>)"
  using assms by (simp add: get_request_to_server_def getitem_def Let_def)

lemma send_message_bytes:
  "send_message ev chat (PyBytes b) a w =
     (Inl (Exn TypeError), a, w\<lparr>send_calls := send_calls w @ [(chat, PyBytes b)]\<rparr>)"
  by (simp add: send_message_def Let_def)

lemma send_message_str:
  "send_message ev chat (PyStr s) a w =
     (case telegram_send ev chat (PyStr s) of
        Some e \<Rightarrow> (Inl e, a, w\<lparr>send_calls := send_calls w @ [(chat, PyStr s)]\<rparr>)
      | None \<Rightarrow>
          (Inr (), a,
           w\<lparr>send_calls := send_calls w @ [(chat, PyStr s)],
             sent := sent w @ [(chat, PyStr s)]\<rparr>))"
  by (simp add: send_message_def Let_def split: option.splits)

text \<open>
  A handler for one of help, start, stop, info and test, with the server address
  configured: the request is issued whatever comes next; a failure of the request is
  raised as it is; a response is handed to \<open>bot.send_message\<close> as bytes, and that call
  raises.
\<close>

lemma networked_call_request:
  assumes "cmd \<in> {''help'', ''start'', ''stop'', ''info'', ''test''}"
    and "getattr_Api cmd = Inr cb"
    and "settings a ''server_address'' = Some (PyStr addr)"
  shows "requests (world_of (call cb ev u a w)) =
           requests w @ [''http://'' @ addr @ ''/v1/'' @ cmd]"
    and "logged (world_of (call cb ev u a w)) =
           logged w @ [''Received '' @ cmd @ '' command'']"
    and "api_of (call cb ev u a w) = a"
  by (simp_all add: call_networked [OF assms(1,2)] get_request_to_server_ok [OF assms(3)]
        send_message_bytes logger_info_def world_of_def api_of_def message_chat_id_def
        split: sum.splits option.splits)

lemma networked_call_failed_request:
  assumes "cmd \<in> {''help'', ''start'', ''stop'', ''info'', ''test''}"
    and "getattr_Api cmd = Inr cb"
    and "settings a ''server_address'' = Some (PyStr addr)"
    and "http_get ev (''http://'' @ addr @ ''/v1/'' @ cmd) = Inl e"
  shows "call cb ev u a w =
           (Inl e, a,
            w\<lparr>logged := logged w @ [''Received '' @ cmd @ '' command''],
              requests := requests w @ [''http://'' @ addr @ ''/v1/'' @ cmd]\<rparr>)"
  using assms(4)
  by (simp add: call_networked [OF assms(1,2)] get_request_to_server_ok [OF assms(3)]
        logger_info_def)

lemma networked_call_response:
  assumes "cmd \<in> {''help'', ''start'', ''stop'', ''info'', ''test''}"
    and "getattr_Api cmd = Inr cb"
    and "settings a ''server_address'' = Some (PyStr addr)"
    and "http_get ev (''http://'' @ addr @ ''/v1/'' @ cmd) = Inr r"
    and "message u = Some m"
  shows "call cb ev u a w =
           (Inl (Exn TypeError), a,
            w\<lparr>logged := logged w @ [''Received '' @ cmd @ '' command''],
              requests := requests w @ [''http://'' @ addr @ ''/v1/'' @ cmd],
              send_calls := send_calls w @ [(chat_id m, PyBytes (content r))]\<rparr>)"
  using assms(4,5)
  by (simp add: call_networked [OF assms(1,2)] get_request_to_server_ok [OF assms(3)]
        send_message_bytes logger_info_def message_chat_id_def)

text \<open>
  What a handler returns and what it adds to the world do not depend on the world it
  starts in, and it returns the \<open>Api\<close> object as it got it.
\<close>

lemma call_frame:
  "result_of (call cb ev u a w) = result_of (call cb ev u a empty_world) \<and>
   api_of (call cb ev u a w) = a \<and>
   world_of (call cb ev u a w) = extend_world w (world_of (call cb ev u a empty_world))"
  by (cases w; cases cb)
    (simp_all add: help_handler_def start_def stop_def info_def version_def test_def unknown_def
       get_request_to_server_def getitem_def send_message_def logger_info_def message_chat_id_def
       result_of_def api_of_def world_of_def extend_world_def empty_world_def Let_def
       split: option.splits sum.splits pyval.splits)

lemma version_on_message:
  assumes "message u = Some m"
    and "settings a ''version'' = Some (PyStr X)"
    and "telegram_send ev (chat_id m) (PyStr X) = None"
  shows "version ev u a w =
           (Inr (), a,
            w\<lparr>logged := logged w @ [''Received version command''],
              send_calls := send_calls w @ [(chat_id m, PyStr X)],
              sent := sent w @ [(chat_id m, PyStr X)]\<rparr>)"
  using assms
  by (simp add: version_def send_message_str logger_info_def getitem_def message_chat_id_def
        Let_def)

lemma unknown_on_message:
  assumes "message u = Some m"
    and "telegram_send ev (chat_id m) (PyStr ''Sorry, unknown command'') = None"
  shows "unknown ev u a w =
           (Inr (), a,
            w\<lparr>logged := logged w @ [''Received unknown command''],
              send_calls := send_calls w @ [(chat_id m, PyStr ''Sorry, unknown command'')],
              sent := sent w @ [(chat_id m, PyStr ''Sorry, unknown command'')]\<rparr>)"
  using assms
  by (simp add: unknown_def send_message_str logger_info_def message_chat_id_def Let_def)

subsection \<open>The handlers\<close>

text \<open>
  C1 (as amended). For each of the commands help, start, stop, info and test, with a server
  address configured, the handler of that name issues exactly one GET, to
  \<open>http://<server_address>/v1/<cmd>\<close>. If the request raises, the handler raises the same
  exception and makes no attempt to reply. If it returns a response, of any status, the
  handler makes exactly one call of \<open>bot.send_message\<close>, for the chat of the message, whose
  text argument is the content of the response.
\<close>

theorem networked_handler_requests_then_passes_payload:
  assumes "cmd \<in> {''help'', ''start'', ''stop'', ''info'', ''test''}"
    and "getattr_Api cmd = Inr cb"
    and "settings a ''server_address'' = Some (PyStr addr)"
  shows "requests (world_of (call cb ev u a w)) =
           requests w @ [''http://'' @ addr @ ''/v1/'' @ cmd] \<and>
         (http_get ev (''http://'' @ addr @ ''/v1/'' @ cmd) = Inl e \<longrightarrow>
            result_of (call cb ev u a w) = Inl e \<and>
            send_calls (world_of (call cb ev u a w)) = send_calls w \<and>
            sent (world_of (call cb ev u a w)) = sent w) \<and>
         (http_get ev (''http://'' @ addr @ ''/v1/'' @ cmd) = Inr r \<longrightarrow>
          message u = Some m \<longrightarrow>
            send_calls (world_of (call cb ev u a w)) =
              send_calls w @ [(chat_id m, PyBytes (content r))])"
proof (intro conjI impI)
  show "requests (world_of (call cb ev u a w)) =
          requests w @ [''http://'' @ addr @ ''/v1/'' @ cmd]"
    by (rule networked_call_request(1) [OF assms])
next
  assume h: "http_get ev (''http://'' @ addr @ ''/v1/'' @ cmd) = Inl e"
  note out = networked_call_failed_request [OF assms h, of u w]
  show "result_of (call cb ev u a w) = Inl e"
    by (simp add: out result_of_def)
  show "send_calls (world_of (call cb ev u a w)) = send_calls w"
    by (simp add: out world_of_def)
  show "sent (world_of (call cb ev u a w)) = sent w"
    by (simp add: out world_of_def)
next
  assume h: "http_get ev (''http://'' @ addr @ ''/v1/'' @ cmd) = Inr r"
    and m: "message u = Some m"
  show "send_calls (world_of (call cb ev u a w)) =
          send_calls w @ [(chat_id m, PyBytes (content r))]"
    by (simp add: networked_call_response [OF assms h m] world_of_def)
qed

theorem networked_handler_requests_then_passes_payload_witness:
  "requests (world_of (call Help sample_env (sample_update (Some ''help'')) sample_api
       empty_world)) =
     requests empty_world @ [''http://'' @ ''localhost:8080'' @ ''/v1/'' @ ''help''] \<and>
   send_calls (world_of (call Help sample_env (sample_update (Some ''help'')) sample_api
       empty_world)) =
     send_calls empty_world @
       [(chat_id \<lparr>chat_id = 42, command = Some ''help''\<rparr>,
         PyBytes (content \<lparr>status_code = 200, content = hello\<rparr>))]"
proof -
  have 1: "''help'' \<in> {''help'', ''start'', ''stop'', ''info'', ''test''}"
    by simp
  have 2: "getattr_Api ''help'' = Inr Help"
    by (simp add: getattr_Api_def)
  have 3: "settings sample_api ''server_address'' = Some (PyStr ''localhost:8080'')"
    by (simp add: sample_api_def)
  have 4: "http_get sample_env (''http://'' @ ''localhost:8080'' @ ''/v1/'' @ ''help'') =
             Inr \<lparr>status_code = 200, content = hello\<rparr>"
    by (simp add: sample_env_def)
  have 5: "message (sample_update (Some ''help'')) = Some \<lparr>chat_id = 42, command = Some ''help''\<rparr>"
    by (simp add: sample_update_def)
  note t = networked_handler_requests_then_passes_payload [OF 1 2 3,
      of sample_env "sample_update (Some ''help'')" empty_world]
  show ?thesis
    using t [THEN conjunct1] t [THEN conjunct2, THEN conjunct2, rule_format, OF 4 5]
    by (rule conjI)
qed

text \<open>
  C1 as stated fails: with the request refused by the backend client the handler raises
  and no reply is sent; and with the request answered the reply is not sent either, since
  the text handed to \<open>bot.send_message\<close> is bytes.
\<close>

theorem relay_sends_no_reply:
  "result_of (call Info failing_env (sample_update (Some ''info'')) sample_api empty_world) =
     Inl (Exn RequestException) \<and>
   sent (world_of (call Info failing_env (sample_update (Some ''info'')) sample_api
     empty_world)) = [] \<and>
   result_of (call Help sample_env (sample_update (Some ''help'')) sample_api empty_world) =
     Inl (Exn TypeError) \<and>
   sent (world_of (call Help sample_env (sample_update (Some ''help'')) sample_api
     empty_world)) = []"
  by (simp add: info_def help_handler_def get_request_to_server_def getitem_def
        send_message_bytes message_chat_id_def logger_info_def result_of_def world_of_def
        sample_api_def sample_env_def failing_env_def sample_update_def empty_world_def Let_def)

text \<open>
  C3. The \<open>version\<close> handler never requests anything from the backend; and on a message,
  where the settings hold the string \<open>X\<close> under \<open>version\<close> and the transport takes the
  reply, it sends exactly one reply, to the chat of the message, whose text is \<open>X\<close>.
\<close>

theorem version_replies_configured_string:
  "requests (world_of (version ev u a w)) = requests w \<and>
   (message u = Some m \<longrightarrow>
    settings a ''version'' = Some (PyStr X) \<longrightarrow>
    telegram_send ev (chat_id m) (PyStr X) = None \<longrightarrow>
    version ev u a w =
      (Inr (), a,
       w\<lparr>logged := logged w @ [''Received version command''],
         send_calls := send_calls w @ [(chat_id m, PyStr X)],
         sent := sent w @ [(chat_id m, PyStr X)]\<rparr>))"
proof (intro conjI impI)
  show "requests (world_of (version ev u a w)) = requests w"
    by (simp add: version_def send_message_def logger_info_def world_of_def getitem_def
          message_chat_id_def Let_def split: option.splits pyval.splits)
next
  assume "message u = Some m" and "settings a ''version'' = Some (PyStr X)"
    and "telegram_send ev (chat_id m) (PyStr X) = None"
  then show "version ev u a w =
      (Inr (), a,
       w\<lparr>logged := logged w @ [''Received version command''],
         send_calls := send_calls w @ [(chat_id m, PyStr X)],
         sent := sent w @ [(chat_id m, PyStr X)]\<rparr>)"
    by (rule version_on_message)
qed

theorem version_replies_configured_string_witness:
  "version sample_env (sample_update (Some ''version'')) sample_api empty_world =
     (Inr (), sample_api,
      empty_world\<lparr>logged := logged empty_world @ [''Received version command''],
        send_calls := send_calls empty_world @
          [(chat_id \<lparr>chat_id = 42, command = Some ''version''\<rparr>, PyStr ''1.0'')],
        sent := sent empty_world @
          [(chat_id \<lparr>chat_id = 42, command = Some ''version''\<rparr>, PyStr ''1.0'')]\<rparr>)"
proof -
  have 1: "message (sample_update (Some ''version'')) =
             Some \<lparr>chat_id = 42, command = Some ''version''\<rparr>"
    by (simp add: sample_update_def)
  have 2: "settings sample_api ''version'' = Some (PyStr ''1.0'')"
    by (simp add: sample_api_def)
  have 3: "telegram_send sample_env (chat_id \<lparr>chat_id = 42, command = Some ''version''\<rparr>)
             (PyStr ''1.0'') = None"
    by (simp add: sample_env_def)
  show ?thesis
    by (rule version_replies_configured_string [THEN conjunct2, rule_format, OF 1 2 3])
qed

text \<open>
  C9. The code hands the content of the response to \<open>bot.send_message\<close> as the bytes they
  are, and the call refuses them: on a message for start, with the backend answering
  "Hello!", the handler raises \<open>TypeError\<close> after its one request and its one call, and no
  reply is sent.
\<close>

theorem bytes_payload_is_refused:
  "call Start sample_env (sample_update (Some ''start'')) sample_api empty_world =
     (Inl (Exn TypeError), sample_api,
      \<lparr>logged = [''Received start command''], stdout = [],
       requests = [''http://localhost:8080/v1/start''],
       send_calls = [(42, PyBytes hello)], sent = []\<rparr>)"
  by (simp add: start_def get_request_to_server_def getitem_def send_message_bytes
        message_chat_id_def logger_info_def sample_api_def sample_env_def sample_update_def
        empty_world_def Let_def)

text \<open>
  C6. Every handler, on every event, either returns having sent exactly one reply, to the
  chat of the message, or raises having sent none. A request the backend client fails has
  been issued when the handler raises that failure, and no reply was sent.
\<close>

theorem one_reply_or_raise:
  "((\<exists>m t. message u = Some m \<and> result_of (call cb ev u a w) = Inr () \<and>
         sent (world_of (call cb ev u a w)) = sent w @ [(chat_id m, t)]) \<or>
    (\<exists>e. result_of (call cb ev u a w) = Inl e \<and>
         sent (world_of (call cb ev u a w)) = sent w)) \<and>
   (cmd \<in> {''help'', ''start'', ''stop'', ''info'', ''test''} \<longrightarrow>
    getattr_Api cmd = Inr cb \<longrightarrow>
    settings a ''server_address'' = Some (PyStr addr) \<longrightarrow>
    http_get ev (''http://'' @ addr @ ''/v1/'' @ cmd) = Inl e \<longrightarrow>
      result_of (call cb ev u a w) = Inl e \<and>
      requests (world_of (call cb ev u a w)) =
        requests w @ [''http://'' @ addr @ ''/v1/'' @ cmd] \<and>
      sent (world_of (call cb ev u a w)) = sent w)"
proof
  show "(\<exists>m t. message u = Some m \<and> result_of (call cb ev u a w) = Inr () \<and>
           sent (world_of (call cb ev u a w)) = sent w @ [(chat_id m, t)]) \<or>
        (\<exists>e. result_of (call cb ev u a w) = Inl e \<and>
           sent (world_of (call cb ev u a w)) = sent w)"
    by (cases cb)
      (auto simp: help_handler_def start_def stop_def info_def version_def test_def unknown_def
         get_request_to_server_def getitem_def send_message_def logger_info_def
         message_chat_id_def result_of_def world_of_def Let_def
         split: option.splits sum.splits pyval.splits)
next
  show "cmd \<in> {''help'', ''start'', ''stop'', ''info'', ''test''} \<longrightarrow>
        getattr_Api cmd = Inr cb \<longrightarrow>
        settings a ''server_address'' = Some (PyStr addr) \<longrightarrow>
        http_get ev (''http://'' @ addr @ ''/v1/'' @ cmd) = Inl e \<longrightarrow>
          result_of (call cb ev u a w) = Inl e \<and>
          requests (world_of (call cb ev u a w)) =
            requests w @ [''http://'' @ addr @ ''/v1/'' @ cmd] \<and>
          sent (world_of (call cb ev u a w)) = sent w"
  proof (intro impI)
    assume c: "cmd \<in> {''help'', ''start'', ''stop'', ''info'', ''test''}"
      and g: "getattr_Api cmd = Inr cb"
      and s: "settings a ''server_address'' = Some (PyStr addr)"
      and h: "http_get ev (''http://'' @ addr @ ''/v1/'' @ cmd) = Inl e"
    show "result_of (call cb ev u a w) = Inl e \<and>
          requests (world_of (call cb ev u a w)) =
            requests w @ [''http://'' @ addr @ ''/v1/'' @ cmd] \<and>
          sent (world_of (call cb ev u a w)) = sent w"
      by (simp add: networked_call_failed_request [OF c g s h] result_of_def world_of_def)
  qed
qed

theorem one_reply_or_raise_witness:
  "result_of (call Stop failing_env (sample_update (Some ''stop'')) sample_api empty_world) =
     Inl (Exn RequestException) \<and>
   requests (world_of (call Stop failing_env (sample_update (Some ''stop'')) sample_api empty_world)) =
     [''http://localhost:8080/v1/stop''] \<and>
   sent (world_of (call Stop failing_env (sample_update (Some ''stop'')) sample_api empty_world)) = []"
  using one_reply_or_raise
          [of "sample_update (Some ''stop'')" Stop failing_env sample_api empty_world
              "''stop''" "''localhost:8080''" "Exn RequestException"]
  by (simp add: getattr_Api_def sample_api_def failing_env_def empty_world_def)

text \<open>
  C8 (as amended). A handler invoked on one event and then again on another returns the
  \<open>Api\<close> object (settings and updater) unchanged both times, and the second invocation
  returns and adds to the world exactly what it would have returned and added had the
  first never run. The handlers help, start, stop, info and test, with a server address
  configured, then have issued two GETs, one for each invocation, and with both answered
  on messages have handed each response to a call of \<open>bot.send_message\<close> of its own. The
  handlers \<open>version\<close> and \<open>unknown\<close> have issued no GET and, on messages with the transport
  taking the replies, have sent two replies, one to each chat.
\<close>

theorem handlers_keep_no_state:
  "(api_of (call cb ev1 u1 a w) = a \<and>
    api_of (twice cb ev1 u1 ev2 u2 a w) = a \<and>
    result_of (twice cb ev1 u1 ev2 u2 a w) = result_of (call cb ev2 u2 a empty_world) \<and>
    world_of (twice cb ev1 u1 ev2 u2 a w) =
      extend_world (extend_world w (world_of (call cb ev1 u1 a empty_world)))
        (world_of (call cb ev2 u2 a empty_world))) \<and>
   (cmd \<in> {''help'', ''start'', ''stop'', ''info'', ''test''} \<longrightarrow>
    getattr_Api cmd = Inr cb \<longrightarrow>
    settings a ''server_address'' = Some (PyStr addr) \<longrightarrow>
      requests (world_of (twice cb ev1 u1 ev2 u2 a w)) =
        requests w @ [''http://'' @ addr @ ''/v1/'' @ cmd, ''http://'' @ addr @ ''/v1/'' @ cmd] \<and>
      (http_get ev1 (''http://'' @ addr @ ''/v1/'' @ cmd) = Inr r1 \<longrightarrow>
       http_get ev2 (''http://'' @ addr @ ''/v1/'' @ cmd) = Inr r2 \<longrightarrow>
       message u1 = Some m1 \<longrightarrow>
       message u2 = Some m2 \<longrightarrow>
         send_calls (world_of (twice cb ev1 u1 ev2 u2 a w)) =
           send_calls w @ [(chat_id m1, PyBytes (content r1)),
                           (chat_id m2, PyBytes (content r2))])) \<and>
   (message u1 = Some m1 \<longrightarrow>
    message u2 = Some m2 \<longrightarrow>
    settings a ''version'' = Some (PyStr X) \<longrightarrow>
    telegram_send ev1 (chat_id m1) (PyStr X) = None \<longrightarrow>
    telegram_send ev2 (chat_id m2) (PyStr X) = None \<longrightarrow>
      requests (world_of (twice Version ev1 u1 ev2 u2 a w)) = requests w \<and>
      sent (world_of (twice Version ev1 u1 ev2 u2 a w)) =
        sent w @ [(chat_id m1, PyStr X), (chat_id m2, PyStr X)]) \<and>
   (message u1 = Some m1 \<longrightarrow>
    message u2 = Some m2 \<longrightarrow>
    telegram_send ev1 (chat_id m1) (PyStr ''Sorry, unknown command'') = None \<longrightarrow>
    telegram_send ev2 (chat_id m2) (PyStr ''Sorry, unknown command'') = None \<longrightarrow>
      requests (world_of (twice Unknown ev1 u1 ev2 u2 a w)) = requests w \<and>
      sent (world_of (twice Unknown ev1 u1 ev2 u2 a w)) =
        sent w @ [(chat_id m1, PyStr ''Sorry, unknown command''),
                  (chat_id m2, PyStr ''Sorry, unknown command'')])"
proof (intro conjI impI)
  show 1: "api_of (call cb ev1 u1 a w) = a"
    using call_frame [of cb ev1 u1 a w] by simp
  show "api_of (twice cb ev1 u1 ev2 u2 a w) = a"
    using call_frame [of cb ev2 u2 a "world_of (call cb ev1 u1 a w)"]
    by (simp add: twice_def 1)
  show "result_of (twice cb ev1 u1 ev2 u2 a w) = result_of (call cb ev2 u2 a empty_world)"
    using call_frame [of cb ev2 u2 a "world_of (call cb ev1 u1 a w)"]
    by (simp add: twice_def 1)
  show "world_of (twice cb ev1 u1 ev2 u2 a w) =
          extend_world (extend_world w (world_of (call cb ev1 u1 a empty_world)))
            (world_of (call cb ev2 u2 a empty_world))"
    using call_frame [of cb ev2 u2 a "world_of (call cb ev1 u1 a w)"]
      call_frame [of cb ev1 u1 a w]
    by (simp add: twice_def 1)
next
  assume c: "cmd \<in> {''help'', ''start'', ''stop'', ''info'', ''test''}"
    and g: "getattr_Api cmd = Inr cb"
    and s: "settings a ''server_address'' = Some (PyStr addr)"
  show "requests (world_of (twice cb ev1 u1 ev2 u2 a w)) =
          requests w @ [''http://'' @ addr @ ''/v1/'' @ cmd, ''http://'' @ addr @ ''/v1/'' @ cmd]"
    by (simp add: twice_def networked_call_request(3) [OF c g s]
          networked_call_request(1) [OF c g s])
next
  assume c: "cmd \<in> {''help'', ''start'', ''stop'', ''info'', ''test''}"
    and g: "getattr_Api cmd = Inr cb"
    and s: "settings a ''server_address'' = Some (PyStr addr)"
    and h1: "http_get ev1 (''http://'' @ addr @ ''/v1/'' @ cmd) = Inr r1"
    and h2: "http_get ev2 (''http://'' @ addr @ ''/v1/'' @ cmd) = Inr r2"
    and m1: "message u1 = Some m1"
    and m2: "message u2 = Some m2"
  show "send_calls (world_of (twice cb ev1 u1 ev2 u2 a w)) =
          send_calls w @ [(chat_id m1, PyBytes (content r1)),
                          (chat_id m2, PyBytes (content r2))]"
    by (simp add: twice_def networked_call_response [OF c g s h1 m1]
          networked_call_response [OF c g s h2 m2] api_of_def world_of_def)
next
  assume m1: "message u1 = Some m1" and m2: "message u2 = Some m2"
    and v: "settings a ''version'' = Some (PyStr X)"
    and t1: "telegram_send ev1 (chat_id m1) (PyStr X) = None"
    and t2: "telegram_send ev2 (chat_id m2) (PyStr X) = None"
  show "requests (world_of (twice Version ev1 u1 ev2 u2 a w)) = requests w"
    by (simp add: twice_def version_on_message [OF m1 v t1] version_on_message [OF m2 v t2]
          api_of_def world_of_def)
  show "sent (world_of (twice Version ev1 u1 ev2 u2 a w)) =
          sent w @ [(chat_id m1, PyStr X), (chat_id m2, PyStr X)]"
    by (simp add: twice_def version_on_message [OF m1 v t1] version_on_message [OF m2 v t2]
          api_of_def world_of_def)
next
  assume m1: "message u1 = Some m1" and m2: "message u2 = Some m2"
    and t1: "telegram_send ev1 (chat_id m1) (PyStr ''Sorry, unknown command'') = None"
    and t2: "telegram_send ev2 (chat_id m2) (PyStr ''Sorry, unknown command'') = None"
  show "requests (world_of (twice Unknown ev1 u1 ev2 u2 a w)) = requests w"
    by (simp add: twice_def unknown_on_message [OF m1 t1] unknown_on_message [OF m2 t2]
          api_of_def world_of_def)
  show "sent (world_of (twice Unknown ev1 u1 ev2 u2 a w)) =
          sent w @ [(chat_id m1, PyStr ''Sorry, unknown command''),
                    (chat_id m2, PyStr ''Sorry, unknown command'')]"
    by (simp add: twice_def unknown_on_message [OF m1 t1] unknown_on_message [OF m2 t2]
          api_of_def world_of_def)
qed

theorem handlers_keep_no_state_witness:
  "(requests (world_of (twice Test sample_env (sample_update (Some ''test'')) second_env
        second_update sample_api empty_world)) =
      requests empty_world @
        [''http://'' @ ''localhost:8080'' @ ''/v1/'' @ ''test'',
         ''http://'' @ ''localhost:8080'' @ ''/v1/'' @ ''test''] \<and>
    send_calls (world_of (twice Test sample_env (sample_update (Some ''test'')) second_env
        second_update sample_api empty_world)) =
      send_calls empty_world @
        [(chat_id \<lparr>chat_id = 42, command = Some ''test''\<rparr>,
          PyBytes (content \<lparr>status_code = 200, content = hello\<rparr>)),
         (chat_id \<lparr>chat_id = 43, command = None\<rparr>,
          PyBytes (content \<lparr>status_code = 500, content = bye\<rparr>))]) \<and>
   (requests (world_of (twice Version sample_env (sample_update (Some ''test'')) second_env
        second_update sample_api empty_world)) = requests empty_world \<and>
    sent (world_of (twice Version sample_env (sample_update (Some ''test'')) second_env
        second_update sample_api empty_world)) =
      sent empty_world @
        [(chat_id \<lparr>chat_id = 42, command = Some ''test''\<rparr>, PyStr ''1.0''),
         (chat_id \<lparr>chat_id = 43, command = None\<rparr>, PyStr ''1.0'')]) \<and>
   (requests (world_of (twice Unknown sample_env (sample_update (Some ''test'')) second_env
        second_update sample_api empty_world)) = requests empty_world \<and>
    sent (world_of (twice Unknown sample_env (sample_update (Some ''test'')) second_env
        second_update sample_api empty_world)) =
      sent empty_world @
        [(chat_id \<lparr>chat_id = 42, command = Some ''test''\<rparr>, PyStr ''Sorry, unknown command''),
         (chat_id \<lparr>chat_id = 43, command = None\<rparr>, PyStr ''Sorry, unknown command'')])"
proof -
  have c: "''test'' \<in> {''help'', ''start'', ''stop'', ''info'', ''test''}"
    by simp
  have g: "getattr_Api ''test'' = Inr Test"
    by (simp add: getattr_Api_def)
  have s: "settings sample_api ''server_address'' = Some (PyStr ''localhost:8080'')"
    by (simp add: sample_api_def)
  have v: "settings sample_api ''version'' = Some (PyStr ''1.0'')"
    by (simp add: sample_api_def)
  have h1: "http_get sample_env (''http://'' @ ''localhost:8080'' @ ''/v1/'' @ ''test'') =
              Inr \<lparr>status_code = 200, content = hello\<rparr>"
    by (simp add: sample_env_def)
  have h2: "http_get second_env (''http://'' @ ''localhost:8080'' @ ''/v1/'' @ ''test'') =
              Inr \<lparr>status_code = 500, content = bye\<rparr>"
    by (simp add: second_env_def)
  have m1: "message (sample_update (Some ''test'')) = Some \<lparr>chat_id = 42, command = Some ''test''\<rparr>"
    by (simp add: sample_update_def)
  have m2: "message second_update = Some \<lparr>chat_id = 43, command = None\<rparr>"
    by (simp add: second_update_def)
  have t1: "telegram_send sample_env (chat_id \<lparr>chat_id = 42, command = Some ''test''\<rparr>) x = None"
    for x
    by (simp add: sample_env_def)
  have t2: "telegram_send second_env (chat_id \<lparr>chat_id = 43, command = None\<rparr>) x = None" for x
    by (simp add: second_env_def)
  note all = handlers_keep_no_state
      [of Test sample_env "sample_update (Some ''test'')" sample_api empty_world
          second_env second_update "''test''" "''localhost:8080''"
          "\<lparr>status_code = 200, content = hello\<rparr>" "\<lparr>status_code = 500, content = bye\<rparr>"
          "\<lparr>chat_id = 42, command = Some ''test''\<rparr>" "\<lparr>chat_id = 43, command = None\<rparr>"
          "''1.0''"]
  note net = all [THEN conjunct2, THEN conjunct1, rule_format, OF c g s]
  have a: "requests (world_of (twice Test sample_env (sample_update (Some ''test'')) second_env
        second_update sample_api empty_world)) =
      requests empty_world @
        [''http://'' @ ''localhost:8080'' @ ''/v1/'' @ ''test'',
         ''http://'' @ ''localhost:8080'' @ ''/v1/'' @ ''test''] \<and>
    send_calls (world_of (twice Test sample_env (sample_update (Some ''test'')) second_env
        second_update sample_api empty_world)) =
      send_calls empty_world @
        [(chat_id \<lparr>chat_id = 42, command = Some ''test''\<rparr>,
          PyBytes (content \<lparr>status_code = 200, content = hello\<rparr>)),
         (chat_id \<lparr>chat_id = 43, command = None\<rparr>,
          PyBytes (content \<lparr>status_code = 500, content = bye\<rparr>))]"
    using net [THEN conjunct1] net [THEN conjunct2, rule_format, OF h1 h2 m1 m2]
    by (rule conjI)
  note b = all [THEN conjunct2, THEN conjunct2, THEN conjunct1, rule_format, OF m1 m2 v t1 t2]
  note d = all [THEN conjunct2, THEN conjunct2, THEN conjunct2, rule_format, OF m1 m2 t1 t2]
  show ?thesis
    using a b d by (intro conjI) blast+
qed

text \<open>
  C8 as stated fails for \<open>version\<close> (and for \<open>unknown\<close>): invoked twice it has issued
  no GET.
\<close>

theorem version_twice_requests_nothing:
  "requests (world_of (twice Version sample_env (sample_update (Some ''version'')) second_env
      second_update sample_api empty_world)) = []"
  by (simp add: twice_def version_def send_message_def getitem_def message_chat_id_def
        logger_info_def api_of_def world_of_def sample_api_def sample_env_def second_env_def
        sample_update_def second_update_def empty_world_def Let_def)

subsection \<open>Fault classification\<close>

lemma logged_line_inj:
  "w\<lparr>logged := logged w @ [x]\<rparr> = w\<lparr>logged := logged w @ [y]\<rparr> \<longleftrightarrow> x = y"
  by (cases w) simp

lemma kind_name_inj: "kind_name k = kind_name k' \<Longrightarrow> k = k'"
  by (cases k; cases k'; simp)

lemma error_callback_caught:
  "error_callback ev u e a w =
     (case caught_by e of
        None \<Rightarrow> (Inl e, a, w)
      | Some k \<Rightarrow> (Inr (), a, w\<lparr>logged := logged w @ [''Error '' @ kind_name k @ '' found!'']\<rparr>))"
  by (simp add: error_callback_def caught_by_def fault_kinds_def logger_info_def)

lemma caught_by_own_class:
  "class_of e \<in> set fault_kinds \<Longrightarrow> caught_by e = Some (class_of e)"
  by (cases e; cases "class_of e"; simp add: caught_by_def fault_kinds_def isinstance_def)

text \<open>
  C2 (as amended). For every error that is an instance of \<open>TelegramError\<close>, the
  callback returns without raising, leaves the \<open>Api\<close> object as it was, sends and
  requests nothing, and adds exactly one line to the log, naming exactly one of the six
  classes Unauthorized, BadRequest, TimedOut, NetworkError, ChatMigrated, TelegramError;
  for an error whose class is one of the six, that class.
\<close>

theorem telegram_errors_classified:
  assumes "isinstance error TelegramError"
  shows "(\<exists>!k. k \<in> set fault_kinds \<and>
            error_callback ev u error a w =
              (Inr (), a, w\<lparr>logged := logged w @ [''Error '' @ kind_name k @ '' found!'']\<rparr>)) \<and>
         (class_of error \<in> set fault_kinds \<longrightarrow>
            error_callback ev u error a w =
              (Inr (), a,
               w\<lparr>logged := logged w @ [''Error '' @ kind_name (class_of error) @ '' found!'']\<rparr>))"
proof
  have "TelegramError \<in> set fault_kinds"
    by (simp add: fault_kinds_def)
  with assms have "caught_by error \<noteq> None"
    unfolding caught_by_def find_None_iff by blast
  then obtain k0 where k0: "caught_by error = Some k0"
    by blast
  then have in_kinds: "k0 \<in> set fault_kinds"
    unfolding caught_by_def find_Some_iff by force
  show "\<exists>!k. k \<in> set fault_kinds \<and>
          error_callback ev u error a w =
            (Inr (), a, w\<lparr>logged := logged w @ [''Error '' @ kind_name k @ '' found!'']\<rparr>)"
  proof (rule ex1I [of _ k0])
    show "k0 \<in> set fault_kinds \<and>
          error_callback ev u error a w =
            (Inr (), a, w\<lparr>logged := logged w @ [''Error '' @ kind_name k0 @ '' found!'']\<rparr>)"
      using in_kinds by (simp add: error_callback_caught k0)
  next
    fix k
    assume "k \<in> set fault_kinds \<and>
            error_callback ev u error a w =
              (Inr (), a, w\<lparr>logged := logged w @ [''Error '' @ kind_name k @ '' found!'']\<rparr>)"
    then have "kind_name k = kind_name k0"
      by (simp add: error_callback_caught k0 logged_line_inj)
    then show "k = k0"
      by (rule kind_name_inj)
  qed
next
  show "class_of error \<in> set fault_kinds \<longrightarrow>
          error_callback ev u error a w =
            (Inr (), a,
             w\<lparr>logged := logged w @ [''Error '' @ kind_name (class_of error) @ '' found!'']\<rparr>)"
    by (simp add: error_callback_caught caught_by_own_class)
qed

theorem telegram_errors_classified_witness:
  "error_callback sample_env (sample_update None) (Exn BadRequest) sample_api empty_world =
     (Inr (), sample_api,
      empty_world\<lparr>logged := logged empty_world @ [''Error BadRequest found!'']\<rparr>)"
proof -
  have h: "isinstance (Exn BadRequest) TelegramError"
    by (simp add: isinstance_def)
  have k: "class_of (Exn BadRequest) \<in> set fault_kinds"
    by (simp add: fault_kinds_def)
  show ?thesis
    using telegram_errors_classified [OF h, THEN conjunct2, rule_format, OF k]
    by simp
qed

text \<open>
  C2 as stated fails for an error from outside the transport, such as a failure of the
  HTTP client: no clause catches it, so it leaves the callback and nothing is logged.
\<close>

theorem foreign_error_escapes:
  "error_callback sample_env (sample_update (Some ''help'')) (Exn RequestException)
       sample_api empty_world =
     (Inl (Exn RequestException), sample_api, empty_world)"
  by (simp add: error_callback_def isinstance_def)

subsection \<open>Registration and dispatch\<close>


lemma create_api_commands_registers:
  "create_api_commands d w =
     (Inr (), register_all code_registrations d,
      w\<lparr>stdout := stdout w @
         [''Creating command: help'', ''Creating command: start'', ''Creating command: stop'',
          ''Creating command: info'', ''Creating command: version'', ''Creating command: test'']\<rparr>)"
  by (simp add: create_api_commands_def api_commands_def getattr_Api_def code_registrations_def
        py_print_def Let_def)

lemma handlers_register_all:
  "handlers (register_all rs d) = handlers d @ registered_listeners rs"
  by (induction rs arbitrary: d rule: registered_listeners.induct)
    (simp_all add: add_handler_def add_error_handler_def)

lemma dispatch_register_all:
  "dispatch (register_all rs new_dispatcher) u =
     map_option listener_callback (find (\<lambda>l. check_update l u) (registered_listeners rs))"
  by (simp add: dispatch_def handlers_register_all new_dispatcher_def)

lemma command_token_message:
  "message u = Some m \<Longrightarrow> command_token u = command m"
  by (simp add: command_token_def effective_message_def)

lemma find_no_command:
  assumes "command_token u = None"
  shows "find (\<lambda>l. check_update l u) ls = None"
proof -
  have "\<not> check_update l u" for l
  proof (cases l)
    case (CommandHandler name cb)
    with assms show ?thesis
      by (cases "message u") (simp_all add: command_token_message)
  next
    case (MessageHandler f cb)
    with assms show ?thesis by (cases f) simp
  qed
  then show ?thesis
    by (simp add: find_None_iff)
qed

lemma fallback_after_commands_Cons:
  "fallback_after_commands (r # rs) =
     (if is_fallback_registration r then \<not> list_ex is_command_registration rs
      else fallback_after_commands rs)"
  by (cases r rule: is_fallback_registration.cases) (simp_all add: fallback_after_commands_def)

lemma find_listed_command:
  assumes u: "message u = Some m" "command m = Some c"
  shows "AddHandler (CommandHandler c cb) \<in> set rs \<Longrightarrow>
         (\<forall>cb'. AddHandler (CommandHandler c cb') \<in> set rs \<longrightarrow> cb' = cb) \<Longrightarrow>
         fallback_after_commands rs \<Longrightarrow>
         find (\<lambda>l. check_update l u) (registered_listeners rs) = Some (CommandHandler c cb)"
proof (induction rs)
  case Nil
  then show ?case by simp
next
  case (Cons r rs)
  note mem = Cons.prems(1) and uniq = Cons.prems(2) and ord = Cons.prems(3)
  have uniq': "\<forall>cb'. AddHandler (CommandHandler c cb') \<in> set rs \<longrightarrow> cb' = cb"
    using uniq by simp
  show ?case
  proof (cases r)
    case (AddErrorHandler l)
    have "AddHandler (CommandHandler c cb) \<in> set rs"
      using mem AddErrorHandler by simp
    moreover have "fallback_after_commands rs"
      using ord AddErrorHandler by (simp add: fallback_after_commands_Cons)
    ultimately have "find (\<lambda>l. check_update l u) (registered_listeners rs) =
                       Some (CommandHandler c cb)"
      using uniq' Cons.IH by blast
    then show ?thesis
      using AddErrorHandler by simp
  next
    case (AddHandler l)
    show ?thesis
    proof (cases l)
      case (MessageHandler f cb')
      have "\<not> list_ex is_command_registration rs"
        using ord AddHandler MessageHandler by (simp add: fallback_after_commands_Cons)
      moreover have "AddHandler (CommandHandler c cb) \<in> set rs"
        using mem AddHandler MessageHandler by simp
      ultimately have False
        unfolding list_ex_iff by (metis is_command_registration.simps(1))
      then show ?thesis ..
    next
      case (CommandHandler c' cb')
      show ?thesis
      proof (cases "c' = c")
        case True
        have "AddHandler (CommandHandler c cb') \<in> set (r # rs)"
          using AddHandler CommandHandler True by simp
        then have "cb' = cb"
          using uniq by blast
        then show ?thesis
          using AddHandler CommandHandler True u by simp
      next
        case False
        have "AddHandler (CommandHandler c cb) \<in> set rs"
          using mem AddHandler CommandHandler False by simp
        moreover have "fallback_after_commands rs"
          using ord AddHandler CommandHandler by (simp add: fallback_after_commands_Cons)
        ultimately have "find (\<lambda>l. check_update l u) (registered_listeners rs) =
                           Some (CommandHandler c cb)"
          using uniq' Cons.IH by blast
        then show ?thesis
          using AddHandler CommandHandler False u by simp
      qed
    qed
  qed
qed

lemma find_unlisted_command:
  assumes tok: "command_token u = Some c"
    and none: "message u = None \<or> (\<forall>cb. AddHandler (CommandHandler c cb) \<notin> set rs0)"
  shows "set rs \<subseteq> set rs0 \<Longrightarrow>
         AddHandler (MessageHandler f cb0) \<in> set rs \<Longrightarrow>
         (\<forall>f' cb. AddHandler (MessageHandler f' cb) \<in> set rs \<longrightarrow> cb = cb0) \<Longrightarrow>
         map_option listener_callback
           (find (\<lambda>l. check_update l u) (registered_listeners rs)) = Some cb0"
proof (induction rs)
  case Nil
  then show ?case by simp
next
  case (Cons r rs)
  note sub = Cons.prems(1) and mem = Cons.prems(2) and uniq = Cons.prems(3)
  have sub': "set rs \<subseteq> set rs0"
    using sub by simp
  have uniq': "\<forall>f' cb. AddHandler (MessageHandler f' cb) \<in> set rs \<longrightarrow> cb = cb0"
    using uniq by simp
  show ?case
  proof (cases r)
    case (AddErrorHandler l)
    have "AddHandler (MessageHandler f cb0) \<in> set rs"
      using mem AddErrorHandler by simp
    then have "map_option listener_callback
                 (find (\<lambda>l. check_update l u) (registered_listeners rs)) = Some cb0"
      using sub' uniq' Cons.IH by blast
    then show ?thesis
      using AddErrorHandler by simp
  next
    case (AddHandler l)
    show ?thesis
    proof (cases l)
      case (MessageHandler f' cb')
      have "AddHandler (MessageHandler f' cb') \<in> set (r # rs)"
        using AddHandler MessageHandler by simp
      then have "cb' = cb0"
        using uniq by blast
      moreover have "check_update (MessageHandler f' cb') u"
        using tok by (cases f') simp
      ultimately show ?thesis
        using AddHandler MessageHandler by simp
    next
      case (CommandHandler c' cb')
      have nomatch: "\<not> check_update (CommandHandler c' cb') u"
      proof (cases "message u")
        case None
        then show ?thesis by simp
      next
        case (Some m)
        have "AddHandler (CommandHandler c' cb') \<in> set rs0"
          using sub AddHandler CommandHandler by simp
        then have "c' \<noteq> c"
          using none Some by auto
        moreover have "command m = Some c"
          using tok command_token_message [OF Some] by simp
        ultimately show ?thesis
          using Some by simp
      qed
      have "AddHandler (MessageHandler f cb0) \<in> set rs"
        using mem AddHandler CommandHandler by simp
      then have "map_option listener_callback
                   (find (\<lambda>l. check_update l u) (registered_listeners rs)) = Some cb0"
        using sub' uniq' Cons.IH by blast
      then show ?thesis
        using AddHandler CommandHandler nomatch by simp
    qed
  qed
qed

lemma listed_command_registrations:
  "list_all (\<lambda>c. \<exists>cb. getattr_Api c = Inr cb \<and>
       AddHandler (CommandHandler c cb) \<in> set code_registrations \<and>
       (\<forall>cb'. AddHandler (CommandHandler c cb') \<in> set code_registrations \<longrightarrow> cb' = cb))
     api_commands"
  by (simp add: api_commands_def getattr_Api_def code_registrations_def)

lemma listed_command_registration:
  assumes "c \<in> set api_commands"
  shows "\<exists>cb. getattr_Api c = Inr cb \<and>
           AddHandler (CommandHandler c cb) \<in> set code_registrations \<and>
           (\<forall>cb'. AddHandler (CommandHandler c cb') \<in> set code_registrations \<longrightarrow> cb' = cb)"
  using listed_command_registrations assms unfolding list_all_iff by blast

lemma unlisted_command_registration:
  assumes "c \<notin> set api_commands"
  shows "\<forall>cb. AddHandler (CommandHandler c cb) \<notin> set code_registrations"
  using assms by (simp add: api_commands_def code_registrations_def)

lemma fallback_registration:
  "AddHandler (MessageHandler FiltersCommand Unknown) \<in> set code_registrations"
  "\<forall>f' cb. AddHandler (MessageHandler f' cb) \<in> set code_registrations \<longrightarrow> cb = Unknown"
  by (simp_all add: code_registrations_def)

lemma dispatch_routes:
  assumes "set rs = set code_registrations" and "fallback_after_commands rs"
  shows "dispatch (register_all rs new_dispatcher) u = route u"
proof (cases "command_token u")
  case None
  have "find (\<lambda>l. check_update l u) (registered_listeners rs) = None"
    by (rule find_no_command [OF None])
  then show ?thesis
    using None by (simp add: dispatch_register_all route_def)
next
  case (Some c)
  have mem: "AddHandler (MessageHandler FiltersCommand Unknown) \<in> set rs"
    unfolding assms(1) by (rule fallback_registration(1))
  have uniq: "\<forall>f' cb. AddHandler (MessageHandler f' cb) \<in> set rs \<longrightarrow> cb = Unknown"
    unfolding assms(1) by (rule fallback_registration(2))
  show ?thesis
  proof (cases "message u \<noteq> None \<and> c \<in> set api_commands")
    case True
    then obtain m where m: "message u = Some m"
      by blast
    have cm: "command m = Some c"
      using Some command_token_message [OF m] by simp
    from True listed_command_registration [of c] obtain cb where g: "getattr_Api c = Inr cb"
      and m0: "AddHandler (CommandHandler c cb) \<in> set code_registrations"
      and q0: "\<forall>cb'. AddHandler (CommandHandler c cb') \<in> set code_registrations \<longrightarrow> cb' = cb"
      by blast
    have ms: "AddHandler (CommandHandler c cb) \<in> set rs"
      unfolding assms(1) by (rule m0)
    have q: "\<forall>cb'. AddHandler (CommandHandler c cb') \<in> set rs \<longrightarrow> cb' = cb"
      unfolding assms(1) by (rule q0)
    have "find (\<lambda>l. check_update l u) (registered_listeners rs) = Some (CommandHandler c cb)"
      by (rule find_listed_command [OF m cm ms q assms(2)])
    then have "dispatch (register_all rs new_dispatcher) u = Some cb"
      by (simp add: dispatch_register_all)
    moreover have "route u = Some cb"
      using True by (simp add: route_def Some g)
    ultimately show ?thesis
      by simp
  next
    case False
    have none: "message u = None \<or> (\<forall>cb. AddHandler (CommandHandler c cb) \<notin> set rs)"
    proof (cases "message u = None")
      case True
      then show ?thesis ..
    next
      case nonempty: False
      with False have "c \<notin> set api_commands"
        by simp
      then have "\<forall>cb. AddHandler (CommandHandler c cb) \<notin> set rs"
        unfolding assms(1) by (rule unlisted_command_registration)
      then show ?thesis ..
    qed
    have "map_option listener_callback
            (find (\<lambda>l. check_update l u) (registered_listeners rs)) = Some Unknown"
      by (rule find_unlisted_command [OF Some none subset_refl mem uniq])
    then have "dispatch (register_all rs new_dispatcher) u = Some Unknown"
      by (simp add: dispatch_register_all)
    moreover have "route u = Some Unknown"
      using False by (auto simp: route_def Some)
    ultimately show ?thesis
      by simp
  qed
qed

lemma code_order_ok: "fallback_after_commands code_registrations"
  by (simp add: fallback_after_commands_def code_registrations_def)

text \<open>
  C5 (as amended). For every order of the same registrations in which no command listener
  comes after the fallback listener, dispatch is the same as under the order of the code:
  a message with one of the six commands goes to the method of that name, any other
  command token to \<open>unknown\<close>. The position of the error listener and the order among the
  command listeners do not matter.
\<close>

theorem dispatch_same_when_fallback_last:
  assumes "mset rs = mset code_registrations" and "fallback_after_commands rs"
  shows "dispatch (register_all rs new_dispatcher) u =
           dispatch (register_all code_registrations new_dispatcher) u \<and>
         dispatch (register_all rs new_dispatcher) u = route u"
proof -
  have "set rs = set code_registrations"
    using assms(1) by (rule mset_eq_setD)
  then have "dispatch (register_all rs new_dispatcher) u = route u"
    using assms(2) by (rule dispatch_routes)
  moreover have "dispatch (register_all code_registrations new_dispatcher) u = route u"
    using refl code_order_ok by (rule dispatch_routes)
  ultimately show ?thesis
    by simp
qed

theorem dispatch_same_when_fallback_last_witness:
  "dispatch (register_all fault_listener_first new_dispatcher) (sample_update (Some ''stop'')) =
     dispatch (register_all code_registrations new_dispatcher) (sample_update (Some ''stop'')) \<and>
   dispatch (register_all fault_listener_first new_dispatcher) (sample_update (Some ''stop'')) =
     route (sample_update (Some ''stop''))"
proof -
  have p: "mset fault_listener_first = mset code_registrations"
    by (simp add: fault_listener_first_def code_registrations_def)
  have f: "fallback_after_commands fault_listener_first"
    by (simp add: fallback_after_commands_def fault_listener_first_def)
  show ?thesis
    by (rule dispatch_same_when_fallback_last [OF p f])
qed

text \<open>
  C5 as stated fails: the fallback listener takes every command message, and within a group
  the first listener that takes an update handles it. Registered first, the fallback gets
  the command help, which the order of the code gives to \<open>help\<close>.
\<close>

theorem fallback_first_takes_commands:
  "mset fallback_first = mset code_registrations \<and>
   dispatch (register_all fallback_first new_dispatcher) (sample_update (Some ''help'')) =
     Some Unknown \<and>
   dispatch (register_all code_registrations new_dispatcher) (sample_update (Some ''help'')) =
     Some Help"
proof (intro conjI)
  show "mset fallback_first = mset code_registrations"
    by (simp add: fallback_first_def code_registrations_def)
  show "dispatch (register_all fallback_first new_dispatcher) (sample_update (Some ''help'')) =
          Some Unknown"
    unfolding dispatch_register_all
    by (simp add: fallback_first_def sample_update_def command_token_def effective_message_def)
  show "dispatch (register_all code_registrations new_dispatcher) (sample_update (Some ''help'')) =
          Some Help"
    unfolding dispatch_register_all
    by (simp add: code_registrations_def sample_update_def command_token_def
          effective_message_def)
qed

text \<open>
  C4. A command posted in a channel is taken by the fallback listener, as a command in a
  chat is; its update has no \<open>message\<close>, and \<open>unknown\<close>, after its log line, raises
  \<open>AttributeError\<close> on \<open>update.message.chat_id\<close>: no reply is sent.
\<close>

theorem unknown_raises_on_channel_post:
  "dispatch (register_all code_registrations new_dispatcher) (sample_channel_post (Some ''foo'')) =
     Some Unknown \<and>
   unknown sample_env (sample_channel_post (Some ''foo'')) sample_api empty_world =
     (Inl (Exn AttributeError), sample_api,
      \<lparr>logged = [''Received unknown command''], stdout = [], requests = [],
       send_calls = [], sent = []\<rparr>)"
proof
  show "dispatch (register_all code_registrations new_dispatcher)
          (sample_channel_post (Some ''foo'')) = Some Unknown"
    unfolding dispatch_register_all
    by (simp add: code_registrations_def sample_channel_post_def command_token_def
          effective_message_def)
  show "unknown sample_env (sample_channel_post (Some ''foo'')) sample_api empty_world =
     (Inl (Exn AttributeError), sample_api,
      \<lparr>logged = [''Received unknown command''], stdout = [], requests = [],
       send_calls = [], sent = []\<rparr>)"
    by (simp add: unknown_def message_chat_id_def logger_info_def sample_channel_post_def
          empty_world_def Let_def)
qed

text \<open>
  C10. With the listeners the code registers, an update whose message carries no command
  token is taken by no listener: no handler runs and nothing is sent or changed. The
  \<open>unknown\<close> handler is reached only by updates that carry a command token.
\<close>

theorem non_command_matches_no_listener:
  assumes "create_api_commands new_dispatcher w0 = (r, d, w1)"
  shows "(command_token u = None \<longrightarrow>
            dispatch d u = None \<and> process_update ev d u a w = (Inr (), a, w)) \<and>
         (dispatch d u = Some Unknown \<longrightarrow> command_token u \<noteq> None)"
proof -
  have d: "d = register_all code_registrations new_dispatcher"
    using assms by (simp add: create_api_commands_registers)
  have none: "dispatch d u = None" if "command_token u = None"
    using find_no_command [OF that] by (simp add: d dispatch_register_all)
  show ?thesis
  proof (intro conjI impI)
    assume n: "command_token u = None"
    show "dispatch d u = None"
      by (rule none [OF n])
    then show "process_update ev d u a w = (Inr (), a, w)"
      by (simp add: process_update_def)
  next
    assume "dispatch d u = Some Unknown"
    then show "command_token u \<noteq> None"
      using none by fastforce
  qed
qed

theorem non_command_matches_no_listener_witness:
  "dispatch (register_all code_registrations new_dispatcher) (sample_update None) = None \<and>
   process_update sample_env (register_all code_registrations new_dispatcher) (sample_update None)
     sample_api empty_world = (Inr (), sample_api, empty_world)"
proof -
  have c: "create_api_commands new_dispatcher empty_world =
             (Inr (), register_all code_registrations new_dispatcher,
              snd (snd (create_api_commands new_dispatcher empty_world)))"
    by (simp add: create_api_commands_registers)
  have n: "command_token (sample_update None) = None"
    by (simp add: sample_update_def command_token_def effective_message_def)
  show ?thesis
    by (rule non_command_matches_no_listener [OF c, of "sample_update None" sample_env sample_api
        empty_world, THEN conjunct1, rule_format, OF n])
qed

end
